theory Spec2Isabelle
  imports Complex_Main
begin

section \<open>The recording session of the MeetNote browser extension\<close>

text \<open>
  The background service worker (\<^verbatim>\<open>chrome-extension/background.js\<close>) keeps one
  module-level object \<^verbatim>\<open>recordingState\<close> and a set of handlers that mutate it. Every
  handler is modelled as a function from the state before the call to the state after
  it, paired with the list of effects the handler issued, in program order. What the
  outside world answers during one run of a handler (the stored token, the responses
  of the backend, the result of the tab capture, the clock) is a record \<open>env\<close> that the
  handler takes as an argument. A handler is run from its first statement to its last
  against one such record. Of the states in which one handler is suspended at an
  \<^verbatim>\<open>await\<close> while another runs, those of \<^verbatim>\<open>startRecording\<close> are named below.

  Calls into the browser that only display something (badge, notification, message to
  a tab, \<^verbatim>\<open>console.error\<close>) and \<^verbatim>\<open>mediaRecorder.stop()\<close> are effects that do not throw.
\<close>

subsection \<open>Values\<close>

type_synonym tab_id = nat
type_synonym meeting_id = nat
type_synonym recorder = nat
type_synonym chunk = "nat list"

text \<open>
  A JavaScript number as the handlers use it: a finite value or \<^verbatim>\<open>NaN\<close>. Millisecond
  timestamps are integers; the quotient by 1000 is kept exact.
\<close>

datatype jsnum = Num rat | NaN

fun js_sub :: "jsnum \<Rightarrow> jsnum \<Rightarrow> jsnum" where
  "js_sub (Num a) (Num b) = Num (a - b)"
| "js_sub _ _ = NaN"

fun js_div :: "jsnum \<Rightarrow> rat \<Rightarrow> jsnum" where
  "js_div (Num a) d = Num (a / d)"
| "js_div NaN d = NaN"

text \<open>\<^verbatim>\<open>Math.max(0, x)\<close>: \<^verbatim>\<open>NaN\<close> if \<open>x\<close> is \<^verbatim>\<open>NaN\<close>.\<close>

fun js_max0 :: "jsnum \<Rightarrow> jsnum" where
  "js_max0 (Num a) = Num (max 0 a)"
| "js_max0 NaN = NaN"

text \<open>
  Reading a property that holds a number, or that the object does not have
  (\<^verbatim>\<open>undefined\<close>, which arithmetic turns into \<^verbatim>\<open>NaN\<close>).
\<close>

fun to_number :: "int option \<Rightarrow> jsnum" where
  "to_number None = NaN"
| "to_number (Some t) = Num (of_int t)"

text \<open>
  Truthiness, as \<^verbatim>\<open>!x\<close> and \<^verbatim>\<open>if (x)\<close> test it: \<^verbatim>\<open>null\<close>, \<^verbatim>\<open>undefined\<close>, the number 0 and
  the empty string are falsy.
\<close>

fun truthy_num :: "nat option \<Rightarrow> bool" where
  "truthy_num None = False"
| "truthy_num (Some n) = (n \<noteq> 0)"

fun truthy_str :: "string option \<Rightarrow> bool" where
  "truthy_str None = False"
| "truthy_str (Some t) = (t \<noteq> [])"

text \<open>
  \<^verbatim>\<open>JSON.stringify\<close> of a number: \<^verbatim>\<open>NaN\<close> is written as \<^verbatim>\<open>null\<close>.
\<close>

datatype json = JNull | JNumber rat

fun stringify_num :: "jsnum \<Rightarrow> json" where
  "stringify_num (Num a) = JNumber a"
| "stringify_num NaN = JNull"

subsection \<open>The state object\<close>

text \<open>
  \<^verbatim>\<open>recordingState\<close>. The object literals of the source have five properties;
  \<^verbatim>\<open>createHighlight\<close> reads a sixth, \<^verbatim>\<open>startTime\<close>, which is \<open>None\<close> where the object does
  not have it.
\<close>

record recording_state =
  isRecording :: bool
  meetingId :: "meeting_id option"
  audioChunks :: "chunk list"
  mediaRecorder :: "recorder option"
  currentTab :: "tab_id option"
  startTime :: "int option"

definition initial_state :: recording_state where
  "initial_state =
     \<lparr>isRecording = False, meetingId = None, audioChunks = [], mediaRecorder = None,
      currentTab = None, startTime = None\<rparr>"

subsection \<open>The outside world\<close>

text \<open>
  A \<^verbatim>\<open>fetch\<close> either rejects (network error, abort) or resolves with a response: its
  \<^verbatim>\<open>ok\<close> flag and what \<^verbatim>\<open>response.json()\<close> gives (\<open>Inl\<close> the message of its
  rejection when the body is not JSON).
\<close>

datatype 'a fetched = Rejected string | Response bool "string + 'a"

text \<open>
  \<^verbatim>\<open>chrome.tabCapture.capture\<close> followed by \<^verbatim>\<open>new MediaRecorder\<close>: an exception with its
  message, no stream, or the recorder that was started.
\<close>

datatype captured = CaptureThrows string | NoStream | Stream recorder

record env =
  stored_token :: "string option"
  active_tab_id :: "tab_id option"
  active_tab_url :: "string option"
  meeting_response :: "meeting_id fetched"
  capture :: captured
  upload_response :: "string fetched"
  highlight_response :: "unit fetched"
  now :: int

datatype tab_message =
    RECORDING_STARTED meeting_id
  | RECORDING_STOPPED
  | TRANSCRIPTION_COMPLETE string
  | TOGGLE_TRANSCRIPT

datatype effect =
    PostMeeting string string
  | PostUploadAudio meeting_id string "nat list"
  | PostHighlight meeting_id "string option" json json
  | RecorderStart recorder nat
  | RecorderStop recorder
  | TabMessage tab_id tab_message
  | BadgeText string
  | BadgeColor string
  | Notification string string
  | ConsoleError string

fun is_backend_call :: "effect \<Rightarrow> bool" where
  "is_backend_call (PostMeeting _ _) = True"
| "is_backend_call (PostUploadAudio _ _ _) = True"
| "is_backend_call (PostHighlight _ _ _ _) = True"
| "is_backend_call _ = False"

fun is_create_meeting :: "effect \<Rightarrow> bool" where
  "is_create_meeting (PostMeeting _ _) = True"
| "is_create_meeting _ = False"

fun is_upload_audio :: "effect \<Rightarrow> bool" where
  "is_upload_audio (PostUploadAudio _ _ _) = True"
| "is_upload_audio _ = False"

subsection \<open>Starting\<close>

definition CHUNK_DURATION :: nat where
  "CHUNK_DURATION = 5000"

text \<open>\<^verbatim>\<open>getCurrentTabUrl\<close>: \<^verbatim>\<open>tabs[0]?.url || ''\<close>.\<close>

definition getCurrentTabUrl :: "env \<Rightarrow> string" where
  "getCurrentTabUrl e = (case active_tab_url e of None \<Rightarrow> [] | Some u \<Rightarrow> u)"

text \<open>
  \<^verbatim>\<open>startTabAudioCapture\<close>. The first component is the message of the exception the
  function rethrows, if any.
\<close>

definition startTabAudioCapture ::
  "tab_id \<Rightarrow> env \<Rightarrow> recording_state \<Rightarrow> string option \<times> recording_state \<times> effect list" where
  "startTabAudioCapture tabId e s =
     (case capture e of
        CaptureThrows m \<Rightarrow> (Some m, s, [ConsoleError ''Tab audio capture error:''])
      | NoStream \<Rightarrow>
          (Some ''Failed to capture tab audio'', s, [ConsoleError ''Tab audio capture error:''])
      | Stream r \<Rightarrow> (None, s\<lparr>mediaRecorder := Some r\<rparr>, [RecorderStart r CHUNK_DURATION]))"

text \<open>
  The \<^verbatim>\<open>try\<close> block of \<^verbatim>\<open>startRecording\<close>: the message of the exception that left it, if
  any, the state at that point and the effects so far.
\<close>

definition startRecording_try ::
  "tab_id \<Rightarrow> env \<Rightarrow> recording_state \<Rightarrow> string option \<times> recording_state \<times> effect list" where
  "startRecording_try tabId e s =
     (let s1 = s\<lparr>isRecording := True, currentTab := Some tabId, audioChunks := []\<rparr> in
      case stored_token e of
        None \<Rightarrow> (Some ''Not authenticated'', s1, [])
      | Some token \<Rightarrow>
          if token = [] then (Some ''Not authenticated'', s1, [])
          else
            let post = PostMeeting token (getCurrentTabUrl e) in
            case meeting_response e of
              Rejected m \<Rightarrow> (Some m, s1, [post])
            | Response ok body \<Rightarrow>
                if \<not> ok then (Some ''Failed to create meeting'', s1, [post])
                else
                  (case body of
                     Inl m \<Rightarrow> (Some m, s1, [post])
                   | Inr meeting \<Rightarrow>
                       let s2 = s1\<lparr>meetingId := Some meeting\<rparr> in
                       (case startTabAudioCapture tabId e s2 of
                          (Some m, s3, effs) \<Rightarrow> (Some m, s3, post # effs)
                        | (None, s3, effs) \<Rightarrow>
                            (None, s3,
                             post # effs @
                             [TabMessage tabId (RECORDING_STARTED meeting),
                              BadgeText ''REC'', BadgeColor ''#ff0000'']))))"

text \<open>\<^verbatim>\<open>startRecording\<close>: the \<^verbatim>\<open>try\<close> block and its \<^verbatim>\<open>catch\<close>.\<close>

definition startRecording :: "tab_id \<Rightarrow> env \<Rightarrow> recording_state \<Rightarrow> recording_state \<times> effect list" where
  "startRecording tabId e s =
     (case startRecording_try tabId e s of
        (None, s', effs) \<Rightarrow> (s', effs)
      | (Some m, s', effs) \<Rightarrow>
          (s'\<lparr>isRecording := False\<rparr>,
           effs @ [ConsoleError ''Failed to start recording:'', Notification ''Recording Failed'' m]))"


text \<open>
  \<^verbatim>\<open>startRecording\<close> is suspended at each \<^verbatim>\<open>await\<close>, and other handlers run on the state
  it has left so far. Up to the first \<^verbatim>\<open>await\<close> (the read of the token) it has made its
  three assignments.
\<close>

definition startRecording_entry :: "tab_id \<Rightarrow> recording_state \<Rightarrow> recording_state" where
  "startRecording_entry tabId s =
     s\<lparr>isRecording := True, currentTab := Some tabId, audioChunks := []\<rparr>"

text \<open>
  When the backend has answered with the meeting, its id is stored, and the function
  waits for \<^verbatim>\<open>startTabAudioCapture\<close>: no recorder has been started yet.
\<close>

definition startRecording_awaiting_capture ::
  "tab_id \<Rightarrow> meeting_id \<Rightarrow> recording_state \<Rightarrow> recording_state" where
  "startRecording_awaiting_capture tabId meeting s =
     (startRecording_entry tabId s)\<lparr>meetingId := Some meeting\<rparr>"

subsection \<open>Chunks\<close>

text \<open>
  \<^verbatim>\<open>sendAudioChunkToBackend\<close>: past its guard the function encodes the chunk and drops
  the result; neither branch issues an effect.
\<close>

definition sendAudioChunkToBackend :: "chunk \<Rightarrow> env \<Rightarrow> recording_state \<Rightarrow> effect list" where
  "sendAudioChunkToBackend audioBlob e s =
     (if \<not> truthy_str (stored_token e) \<or> \<not> truthy_num (meetingId s) then [] else [])"

text \<open>The recorder's \<^verbatim>\<open>ondataavailable\<close> handler.\<close>

definition ondataavailable :: "chunk \<Rightarrow> env \<Rightarrow> recording_state \<Rightarrow> recording_state \<times> effect list" where
  "ondataavailable d e s =
     (if length d > 0 then
        let s1 = s\<lparr>audioChunks := audioChunks s @ [d]\<rparr>
        in (s1, sendAudioChunkToBackend d e s1)
      else (s, []))"

text \<open>The chunks of one recording, delivered one after the other.\<close>

fun deliver :: "chunk list \<Rightarrow> env \<Rightarrow> recording_state \<Rightarrow> recording_state \<times> effect list" where
  "deliver [] e s = (s, [])"
| "deliver (d # ds) e s =
     (case ondataavailable d e s of
        (s1, effs1) \<Rightarrow> (case deliver ds e s1 of (s2, effs2) \<Rightarrow> (s2, effs1 @ effs2)))"

subsection \<open>Stopping\<close>

text \<open>
  \<^verbatim>\<open>uploadAudioToBackend\<close> changes no state and catches every exception of its body;
  \<^verbatim>\<open>new Blob(chunks)\<close> is the concatenation of the chunks.
\<close>

definition uploadAudioToBackend :: "env \<Rightarrow> recording_state \<Rightarrow> effect list" where
  "uploadAudioToBackend e s =
     (if \<not> truthy_str (stored_token e) \<or> \<not> truthy_num (meetingId s) then []
      else
        let audioBlob = concat (audioChunks s);
            post = PostUploadAudio (the (meetingId s)) (the (stored_token e)) audioBlob;
            failed = [post, ConsoleError ''Failed to upload audio:'']
        in case upload_response e of
             Rejected m \<Rightarrow> failed
           | Response ok body \<Rightarrow>
               if \<not> ok then failed
               else
                 (case body of
                    Inl m \<Rightarrow> failed
                  | Inr result \<Rightarrow>
                      post #
                      (if truthy_num (currentTab s)
                       then [TabMessage (the (currentTab s)) (TRANSCRIPTION_COMPLETE result)]
                       else [])))"

text \<open>
  \<^verbatim>\<open>stopRecording\<close>. The \<^verbatim>\<open>catch\<close> of the source only logs; nothing in the \<^verbatim>\<open>try\<close> block
  throws here, so it has no branch of its own.
\<close>

definition stopRecording :: "env \<Rightarrow> recording_state \<Rightarrow> recording_state \<times> effect list" where
  "stopRecording e s =
     (if \<not> isRecording s then (s, [])
      else
        let s1 = s\<lparr>isRecording := False\<rparr>;
            stop = (case mediaRecorder s1 of None \<Rightarrow> [] | Some r \<Rightarrow> [RecorderStop r]);
            upload = (if audioChunks s1 \<noteq> [] \<and> truthy_num (meetingId s1)
                      then uploadAudioToBackend e s1 else []);
            notify = (if truthy_num (currentTab s1)
                      then [TabMessage (the (currentTab s1)) RECORDING_STOPPED] else [])
        in (\<lparr>isRecording = False, meetingId = None, audioChunks = [], mediaRecorder = None,
             currentTab = None, startTime = None\<rparr>,
            stop @ upload @ notify @
            [BadgeText [],
             Notification ''Recording Complete''
               ''Your meeting has been processed and is ready to view.'']))"

text \<open>\<^verbatim>\<open>toggleRecording\<close> of the background worker.\<close>

definition toggleRecording :: "env \<Rightarrow> recording_state \<Rightarrow> recording_state \<times> effect list" where
  "toggleRecording e s =
     (if isRecording s then stopRecording e s
      else (case active_tab_id e of None \<Rightarrow> (s, []) | Some t \<Rightarrow> startRecording t e s))"

subsection \<open>Highlights\<close>

definition createHighlight :: "env \<Rightarrow> recording_state \<Rightarrow> recording_state \<times> effect list" where
  "createHighlight e s =
     (if \<not> isRecording s \<or> \<not> truthy_num (meetingId s) then (s, [])
      else
        let token = stored_token e;
            currentTime = js_sub (Num (of_int (now e))) (to_number (startTime s));
            startTime' = js_max0 (js_sub currentTime (Num 30000));
            endTime = currentTime;
            post = PostHighlight (the (meetingId s)) token
                     (stringify_num (js_div startTime' 1000)) (stringify_num (js_div endTime 1000))
        in case highlight_response e of
             Rejected m \<Rightarrow> (s, [post, ConsoleError ''Failed to create highlight:''])
           | Response ok body \<Rightarrow>
               (s, post #
                   (if ok then [Notification ''Highlight Created'' ''Your highlight has been saved!'']
                    else [])))"

definition handleCreateHighlight :: "env \<Rightarrow> recording_state \<Rightarrow> recording_state \<times> effect list" where
  "handleCreateHighlight e s = createHighlight e s"

definition toggleTranscript :: "env \<Rightarrow> effect list" where
  "toggleTranscript e =
     (case active_tab_id e of None \<Rightarrow> [] | Some t \<Rightarrow> [TabMessage t TOGGLE_TRANSCRIPT])"

definition handleMeetingDetected :: "string \<Rightarrow> tab_id \<Rightarrow> effect list" where
  "handleMeetingDetected platform tabId =
     [Notification ''Meeting Detected''
        (platform @ '' meeting detected. Click the extension to start recording.'')]"

subsection \<open>Commands and messages\<close>

datatype command = Start_recording | Create_highlight | Toggle_transcript | Other_command

definition onCommand :: "command \<Rightarrow> env \<Rightarrow> recording_state \<Rightarrow> recording_state \<times> effect list" where
  "onCommand c e s =
     (case c of
        Start_recording \<Rightarrow> toggleRecording e s
      | Create_highlight \<Rightarrow> createHighlight e s
      | Toggle_transcript \<Rightarrow> (s, toggleTranscript e)
      | Other_command \<Rightarrow> (s, []))"

text \<open>
  A message and its sender. \<open>tab\<close> is the \<^verbatim>\<open>id\<close> of \<^verbatim>\<open>sender.tab\<close>, and \<open>None\<close> when the
  sender has no \<^verbatim>\<open>tab\<close> property: a message from a content script carries its tab, a
  message from an extension page such as the popup does not.
\<close>

datatype message =
    START_RECORDING
  | STOP_RECORDING
  | GET_RECORDING_STATE
  | CREATE_HIGHLIGHT
  | MEETING_DETECTED string
  | AUDIO_CHUNK
  | Other_message

record sender =
  tab :: "tab_id option"

datatype js_error = TypeError string

datatype response = Success | State recording_state

text \<open>
  The \<^verbatim>\<open>chrome.runtime.onMessage\<close> listener: the exception that leaves it, or the
  state, the effects and what \<^verbatim>\<open>sendResponse\<close> was given. Reading \<^verbatim>\<open>sender.tab.id\<close> when
  \<^verbatim>\<open>sender.tab\<close> is \<^verbatim>\<open>undefined\<close> throws a \<^verbatim>\<open>TypeError\<close> before the handler is called.
\<close>

definition onMessage ::
  "message \<Rightarrow> sender \<Rightarrow> env \<Rightarrow> recording_state
     \<Rightarrow> js_error + (recording_state \<times> effect list \<times> response option)" where
  "onMessage m sndr e s =
     (case m of
        START_RECORDING \<Rightarrow>
          (case tab sndr of
             None \<Rightarrow> Inl (TypeError ''Cannot read properties of undefined (reading 'id')'')
           | Some t \<Rightarrow>
               (case startRecording t e s of (s', effs) \<Rightarrow> Inr (s', effs, Some Success)))
      | STOP_RECORDING \<Rightarrow>
          (case stopRecording e s of (s', effs) \<Rightarrow> Inr (s', effs, Some Success))
      | GET_RECORDING_STATE \<Rightarrow> Inr (s, [], Some (State s))
      | CREATE_HIGHLIGHT \<Rightarrow>
          (case handleCreateHighlight e s of (s', effs) \<Rightarrow> Inr (s', effs, Some Success))
      | MEETING_DETECTED platform \<Rightarrow>
          (case tab sndr of
             None \<Rightarrow> Inl (TypeError ''Cannot read properties of undefined (reading 'id')'')
           | Some t \<Rightarrow> Inr (s, handleMeetingDetected platform t, None))
      | AUDIO_CHUNK \<Rightarrow> Inr (s, [], None)
      | Other_message \<Rightarrow> Inr (s, [], None))"

subsection \<open>Histories\<close>

text \<open>
  What can happen to the worker: a message arrives, a keyboard command arrives, or the
  recorder hands over a chunk. A listener that throws leaves the state as it was.
\<close>

datatype event = Message message sender | Command command | DataAvailable chunk

definition step :: "event \<Rightarrow> env \<Rightarrow> recording_state \<Rightarrow> recording_state" where
  "step ev e s =
     (case ev of
        Message m sndr \<Rightarrow> (case onMessage m sndr e s of Inl err \<Rightarrow> s | Inr r \<Rightarrow> fst r)
      | Command c \<Rightarrow> fst (onCommand c e s)
      | DataAvailable d \<Rightarrow> fst (ondataavailable d e s))"

fun run :: "(event \<times> env) list \<Rightarrow> recording_state \<Rightarrow> recording_state" where
  "run [] s = s"
| "run ((ev, e) # rest) s = run rest (step ev e s)"

subsection \<open>The popup\<close>

text \<open>
  \<^verbatim>\<open>toggleRecording\<close> of \<^verbatim>\<open>popup.js\<close>: the message it sends and the new value of its own
  \<^verbatim>\<open>isRecording\<close> flag. The popup is an extension page, so its messages have no tab.
\<close>

definition popup_toggleRecording :: "bool \<Rightarrow> message \<times> bool" where
  "popup_toggleRecording isRec = (if isRec then (STOP_RECORDING, False) else (START_RECORDING, True))"

definition popup_sender :: sender where
  "popup_sender = \<lparr>tab = None\<rparr>"

text \<open>
  The health probe. \<open>arrival\<close> says when (in milliseconds after the call) and how the
  request would settle if nothing cut it short, \<open>None\<close> if it never would.
  \<^verbatim>\<open>AbortSignal.timeout(limit)\<close> rejects the \<^verbatim>\<open>fetch\<close> once \<open>limit\<close> milliseconds have passed.
  The result is the time at which the \<^verbatim>\<open>fetch\<close> settles and how.
\<close>

definition fetch_with_timeout :: "nat \<Rightarrow> (nat \<times> unit fetched) option \<Rightarrow> nat \<times> unit fetched" where
  "fetch_with_timeout limit arrival =
     (case arrival of
        None \<Rightarrow> (limit, Rejected ''TimeoutError'')
      | Some (t, r) \<Rightarrow> if t < limit then (t, r) else (limit, Rejected ''TimeoutError''))"

datatype indicator = Connected | Offline

text \<open>
  The \<^verbatim>\<open>try\<close> block of \<^verbatim>\<open>checkBackendStatus\<close>: the exception that leaves it or the text
  written to \<^verbatim>\<open>backendStatus\<close>, with the time at which it is left.
\<close>

definition checkBackendStatus_try :: "(nat \<times> unit fetched) option \<Rightarrow> nat \<times> (string + indicator)" where
  "checkBackendStatus_try arrival =
     (case fetch_with_timeout 5000 arrival of
        (t, Rejected m) \<Rightarrow> (t, Inl m)
      | (t, Response ok body) \<Rightarrow> (t, Inr (if ok then Connected else Offline)))"

text \<open>
  \<^verbatim>\<open>checkBackendStatus\<close>: the exception that leaves the function, or the text shown when
  its promise resolves, with the time at which that happens.
\<close>

definition checkBackendStatus :: "(nat \<times> unit fetched) option \<Rightarrow> nat \<times> (js_error + indicator)" where
  "checkBackendStatus arrival =
     (case checkBackendStatus_try arrival of
        (t, Inl m) \<Rightarrow> (t, Inr Offline)
      | (t, Inr shown) \<Rightarrow> (t, Inr shown))"

text \<open>The probe's answer as a truth value: the backend is reachable when "Connected" is shown.\<close>

fun reachable :: "indicator \<Rightarrow> bool" where
  "reachable Connected = True"
| "reachable Offline = False"



subsection \<open>Reading the effects\<close>

text \<open>What tells the user, or the log, that something failed.\<close>

fun is_failure_report :: "effect \<Rightarrow> bool" where
  "is_failure_report (ConsoleError m) = True"
| "is_failure_report (Notification title m) = (title = ''Recording Failed'')"
| "is_failure_report _ = False"



subsection \<open>A sample session\<close>

text \<open>
  A world in which everything works: a token is stored, the backend creates meeting 7,
  the capture gives recorder 1, every request succeeds.
\<close>

definition sample_env :: env where
  "sample_env =
     \<lparr>stored_token = Some ''tok'', active_tab_id = Some 1,
      active_tab_url = Some ''https://meet.google.com/abc'',
      meeting_response = Response True (Inr 7), capture = Stream 1,
      upload_response = Response True (Inr ''done''),
      highlight_response = Response True (Inr ()), now = 1000000\<rparr>"

text \<open>A content script in tab 1 starts a recording, and the recorder delivers two chunks.\<close>

definition sample_history :: "(event \<times> env) list" where
  "sample_history =
     [(Message START_RECORDING \<lparr>tab = Some 1\<rparr>, sample_env),
      (DataAvailable [1, 2, 3], sample_env),
      (DataAvailable [4], sample_env)]"

definition sample_recording :: recording_state where
  "sample_recording = run sample_history initial_state"

section \<open>Facts about the handlers\<close>

lemmas start_defs = startRecording_def startRecording_try_def startTabAudioCapture_def Let_def

lemmas start_splits = option.splits fetched.splits sum.splits captured.splits

lemma sample_recording_eq:
  "sample_recording =
     \<lparr>isRecording = True, meetingId = Some 7, audioChunks = [[1, 2, 3], [4]],
      mediaRecorder = Some 1, currentTab = Some 1, startTime = None\<rparr>"
  by (simp add: sample_recording_def sample_history_def sample_env_def initial_state_def
      step_def onMessage_def start_defs ondataavailable_def sendAudioChunkToBackend_def)

lemma startRecording_chunks: "audioChunks (fst (startRecording tabId e s)) = []"
  by (simp add: start_defs split: start_splits)

text \<open>
  With a token stored and the meeting created, the capture step of \<^verbatim>\<open>startRecording\<close> is
  handed the state named \<open>startRecording_awaiting_capture\<close>.
\<close>

lemma startRecording_try_awaits_capture:
  assumes "stored_token e = Some token" and "token \<noteq> []"
    and "meeting_response e = Response True (Inr m)"
  shows "startRecording_try tabId e s =
     (case startTabAudioCapture tabId e (startRecording_awaiting_capture tabId m s) of
        (Some msg, s3, effs) \<Rightarrow> (Some msg, s3, PostMeeting token (getCurrentTabUrl e) # effs)
      | (None, s3, effs) \<Rightarrow>
          (None, s3,
           PostMeeting token (getCurrentTabUrl e) # effs @
           [TabMessage tabId (RECORDING_STARTED m), BadgeText ''REC'', BadgeColor ''#ff0000'']))"
  using assms
  by (simp add: startRecording_try_def startRecording_awaiting_capture_def
      startRecording_entry_def Let_def)

text \<open>No handler gives \<^verbatim>\<open>startTime\<close> a value.\<close>

lemma startRecording_startTime: "startTime (fst (startRecording tabId e s)) = startTime s"
  by (simp add: start_defs split: start_splits)

lemma stopRecording_startTime:
  "startTime s = None \<Longrightarrow> startTime (fst (stopRecording e s)) = None"
  by (simp add: stopRecording_def Let_def)

lemma createHighlight_state: "fst (createHighlight e s) = s"
  by (simp add: createHighlight_def Let_def split: fetched.splits)

lemma ondataavailable_startTime: "startTime (fst (ondataavailable d e s)) = startTime s"
  by (simp add: ondataavailable_def Let_def)

lemma onCommand_startTime:
  "startTime s = None \<Longrightarrow> startTime (fst (onCommand c e s)) = None"
  by (cases c)
     (simp_all add: onCommand_def toggleRecording_def startRecording_startTime
        stopRecording_startTime createHighlight_state split: option.splits)

lemma onMessage_startTime:
  assumes "startTime s = None" and "onMessage m sndr e s = Inr r"
  shows "startTime (fst r) = None"
  using assms
  by (cases m)
     (auto simp: onMessage_def handleCreateHighlight_def case_prod_unfold
        startRecording_startTime stopRecording_startTime createHighlight_state
        split: option.splits)

lemma step_startTime: "startTime s = None \<Longrightarrow> startTime (step ev e s) = None"
  by (cases ev)
     (auto simp: step_def onCommand_startTime ondataavailable_startTime
        dest: onMessage_startTime split: sum.splits)

lemma run_startTime: "startTime s = None \<Longrightarrow> startTime (run evs s) = None"
  by (induction evs s rule: run.induct) (simp_all add: step_startTime)

text \<open>
  Had \<^verbatim>\<open>startTime\<close> held the time \<open>t0\<close> at which the recording began, a highlight made
  \<open>d\<close> milliseconds later would carry the window from \<open>max 0 (d - 30000)\<close> to \<open>d\<close>,
  in seconds.
\<close>

lemma highlight_window_given_startTime:
  assumes "isRecording s" and "truthy_num (meetingId s)"
    and "startTime s = Some t0" and "now e = t0 + d"
  shows "filter is_backend_call (snd (createHighlight e s))
           = [PostHighlight (the (meetingId s)) (stored_token e)
                (JNumber (max 0 (of_int d - 30000) / 1000)) (JNumber (of_int d / 1000))]"
  using assms by (simp add: createHighlight_def Let_def split: fetched.splits)

lemma highlight_window_examples:
  "max 0 (rat_of_int 45000 - 30000) / 1000 = 15" "rat_of_int 45000 / 1000 = 45"
  "max 0 (rat_of_int 10000 - 30000) / 1000 = 0" "rat_of_int 10000 / 1000 = 10"
  by simp_all




lemma stopRecording_idle: "\<not> isRecording s \<Longrightarrow> stopRecording e s = (s, [])"
  by (simp add: stopRecording_def)

text \<open>A chunk with data is appended to \<^verbatim>\<open>audioChunks\<close>; nothing is sent.\<close>

lemma ondataavailable_eq:
  "ondataavailable d e s = (if d \<noteq> [] then s\<lparr>audioChunks := audioChunks s @ [d]\<rparr> else s, [])"
  by (simp add: ondataavailable_def sendAudioChunkToBackend_def Let_def)

lemma deliver_eq:
  "deliver ds e s = (s\<lparr>audioChunks := audioChunks s @ filter (\<lambda>d. d \<noteq> []) ds\<rparr>, [])"
  by (induction ds arbitrary: s) (simp_all add: ondataavailable_eq)

section \<open>A start while a recording is running\<close>

text \<open>
  C1. The claim: a start issued while \<^verbatim>\<open>isRecording\<close> is already true changes nothing
  and creates no second meeting. \<^verbatim>\<open>startRecording\<close> has no guard: with a token stored,
  a start on a recording session that holds chunks posts a new meeting to the backend
  and returns a state that differs from the one it was given (the chunks are gone).
\<close>

theorem start_while_recording:
  assumes "isRecording s" and "truthy_str (stored_token e)" and "audioChunks s \<noteq> []"
  shows "fst (startRecording tabId e s) \<noteq> s
       \<and> filter is_create_meeting (snd (startRecording tabId e s))
           = [PostMeeting (the (stored_token e)) (getCurrentTabUrl e)]"
proof -
  from assms(3) have "fst (startRecording tabId e s) \<noteq> s"
    using startRecording_chunks [of tabId e s] by auto
  moreover from assms(2) obtain token where "stored_token e = Some token" "token \<noteq> []"
    by (cases "stored_token e") auto
  then have "filter is_create_meeting (snd (startRecording tabId e s))
           = [PostMeeting (the (stored_token e)) (getCurrentTabUrl e)]"
    by (simp add: start_defs split: start_splits)
  ultimately show ?thesis by simp
qed

theorem start_while_recording_witness:
  "isRecording sample_recording
   \<and> startRecording 1 (sample_env\<lparr>meeting_response := Response True (Inr 8)\<rparr>) sample_recording
       = (\<lparr>isRecording = True, meetingId = Some 8, audioChunks = [],
            mediaRecorder = Some 1, currentTab = Some 1, startTime = None\<rparr>,
          [PostMeeting ''tok'' ''https://meet.google.com/abc'', RecorderStart 1 5000,
           TabMessage 1 (RECORDING_STARTED 8), BadgeText ''REC'', BadgeColor ''#ff0000''])
   \<and> fst (startRecording 1 (sample_env\<lparr>meeting_response := Response True (Inr 8)\<rparr>) sample_recording)
       \<noteq> sample_recording"
  using start_while_recording
    [of sample_recording "sample_env\<lparr>meeting_response := Response True (Inr 8)\<rparr>" 1]
  by (simp add: sample_recording_eq sample_env_def start_defs getCurrentTabUrl_def CHUNK_DURATION_def)

section \<open>The window of a highlight\<close>

text \<open>
  C2. The claim: while recording, the session holds the time at which the recording
  began, and a highlight made \<open>d\<close> milliseconds later covers \<open>max 0 (d - 30000)\<close> to \<open>d\<close>.
  No handler stores that time: in every state the worker can reach, \<^verbatim>\<open>startTime\<close> is
  undefined, the arithmetic gives \<^verbatim>\<open>NaN\<close>, and a highlight that passes the guard is
  posted with \<^verbatim>\<open>start_time\<close> and \<^verbatim>\<open>end_time\<close> both \<^verbatim>\<open>null\<close>.
\<close>

theorem highlight_window_is_null:
  assumes "s = run evs initial_state" and "isRecording s" and "truthy_num (meetingId s)"
  shows "filter is_backend_call (snd (createHighlight e s))
           = [PostHighlight (the (meetingId s)) (stored_token e) JNull JNull]"
proof -
  have "startTime s = None"
    using assms(1) run_startTime [of initial_state evs] by (simp add: initial_state_def)
  with assms(2,3) show ?thesis
    by (simp add: createHighlight_def Let_def split: fetched.splits)
qed

theorem highlight_window_is_null_witness:
  "isRecording sample_recording \<and> truthy_num (meetingId sample_recording)
   \<and> createHighlight (sample_env\<lparr>now := 1045000\<rparr>) sample_recording
       = (sample_recording,
          [PostHighlight 7 (Some ''tok'') JNull JNull,
           Notification ''Highlight Created'' ''Your highlight has been saved!''])"
  using highlight_window_is_null [of sample_recording sample_history "sample_env\<lparr>now := 1045000\<rparr>"]
  by (simp add: sample_recording_def [symmetric] sample_recording_eq sample_env_def createHighlight_def)

section \<open>The meeting id after a failed start\<close>

text \<open>
  C3. The claim: \<^verbatim>\<open>meetingId\<close> is set exactly when the session has been recording since
  it was last idle, so after a failed start it is null. When the backend has created
  the meeting and the capture then fails, the \<^verbatim>\<open>catch\<close> of \<^verbatim>\<open>startRecording\<close> clears
  \<^verbatim>\<open>isRecording\<close> only: the session is idle, no recorder was started, and \<^verbatim>\<open>meetingId\<close>
  holds the id of the meeting.
\<close>

theorem failed_capture_keeps_meetingId:
  assumes "stored_token e = Some token" and "token \<noteq> []"
    and "meeting_response e = Response True (Inr m)"
    and "\<forall>r. capture e \<noteq> Stream r"
  shows "\<not> isRecording (fst (startRecording tabId e s))
       \<and> meetingId (fst (startRecording tabId e s)) = Some m
       \<and> mediaRecorder (fst (startRecording tabId e s)) = mediaRecorder s"
  using assms by (simp add: start_defs split: start_splits)

theorem failed_capture_keeps_meetingId_witness:
  "(\<forall>r. capture (sample_env\<lparr>capture := NoStream\<rparr>) \<noteq> Stream r)
   \<and> startRecording 1 (sample_env\<lparr>capture := NoStream\<rparr>) initial_state
       = (\<lparr>isRecording = False, meetingId = Some 7, audioChunks = [], mediaRecorder = None,
            currentTab = Some 1, startTime = None\<rparr>,
          [PostMeeting ''tok'' ''https://meet.google.com/abc'',
           ConsoleError ''Tab audio capture error:'',
           ConsoleError ''Failed to start recording:'',
           Notification ''Recording Failed'' ''Failed to capture tab audio''])"
  using failed_capture_keeps_meetingId
    [of "sample_env\<lparr>capture := NoStream\<rparr>" "''tok''" 7 1 initial_state]
  by (simp add: sample_env_def initial_state_def start_defs getCurrentTabUrl_def)

section \<open>Stopping\<close>




section \<open>A highlight outside a recording\<close>

text \<open>
  C5, as the claim states it: outside the status Recording a highlight is rejected.
  The code keeps no status, only the flag \<^verbatim>\<open>isRecording\<close>, and \<^verbatim>\<open>startRecording\<close> sets the
  flag in its first statement. While a start from the initial state waits for the tab
  capture, the flag is set, the id of the meeting is stored and no recorder exists: the
  session is starting, not recording. A highlight requested then passes the guard and
  is posted. The start below goes through that state and fails at the capture, so this
  session never records at all.
\<close>

theorem highlight_posted_while_starting:
  "startRecording_awaiting_capture 1 7 initial_state
     = \<lparr>isRecording = True, meetingId = Some 7, audioChunks = [], mediaRecorder = None,
        currentTab = Some 1, startTime = None\<rparr>
   \<and> createHighlight sample_env (startRecording_awaiting_capture 1 7 initial_state)
       = (startRecording_awaiting_capture 1 7 initial_state,
          [PostHighlight 7 (Some ''tok'') JNull JNull,
           Notification ''Highlight Created'' ''Your highlight has been saved!''])
   \<and> startRecording_try 1 (sample_env\<lparr>capture := NoStream\<rparr>) initial_state
       = (Some ''Failed to capture tab audio'', startRecording_awaiting_capture 1 7 initial_state,
          [PostMeeting ''tok'' ''https://meet.google.com/abc'',
           ConsoleError ''Tab audio capture error:''])
   \<and> \<not> isRecording (fst (startRecording 1 (sample_env\<lparr>capture := NoStream\<rparr>) initial_state))"
  by (simp add: startRecording_awaiting_capture_def startRecording_entry_def initial_state_def
      sample_env_def createHighlight_def start_defs getCurrentTabUrl_def)

text \<open>
  C5, amended. When the flag \<^verbatim>\<open>isRecording\<close> is false, or \<^verbatim>\<open>meetingId\<close> is null,
  \<^verbatim>\<open>createHighlight\<close> returns at its guard: the state is the one it was given and no
  effect is issued, so no call reaches the backend. The same holds on both ways into
  the function, the keyboard command and the \<^verbatim>\<open>CREATE_HIGHLIGHT\<close> message.
\<close>

theorem highlight_rejected:
  assumes "\<not> isRecording s \<or> meetingId s = None"
  shows "createHighlight e s = (s, [])
       \<and> onCommand Create_highlight e s = (s, [])
       \<and> onMessage CREATE_HIGHLIGHT sndr e s = Inr (s, [], Some Success)"
proof -
  from assms have "\<not> isRecording s \<or> \<not> truthy_num (meetingId s)" by auto
  then have "createHighlight e s = (s, [])"
    by (simp add: createHighlight_def)
  then show ?thesis
    by (simp add: onCommand_def onMessage_def handleCreateHighlight_def)
qed

theorem highlight_rejected_witness:
  "\<not> isRecording initial_state
   \<and> createHighlight sample_env initial_state = (initial_state, [])
   \<and> onMessage CREATE_HIGHLIGHT popup_sender sample_env initial_state
       = Inr (initial_state, [], Some Success)"
  using highlight_rejected [of initial_state sample_env popup_sender]
  by (simp add: initial_state_def)

section \<open>One upload for all chunks\<close>

text \<open>
  C6, as the claim states it: every recording of one or more chunks ends in exactly one
  upload. It does not when the token is no longer stored at the time of the stop: the
  sample recording holds two chunks, and stopping it without a token uploads nothing.
\<close>

theorem stop_without_token_uploads_nothing:
  "isRecording sample_recording
   \<and> audioChunks sample_recording = [[1, 2, 3], [4]]
   \<and> filter is_upload_audio
       (snd (stopRecording (sample_env\<lparr>stored_token := None\<rparr>) sample_recording)) = []"
  by (simp add: sample_recording_eq sample_env_def stopRecording_def uploadAudioToBackend_def)

text \<open>
  C6, amended. Take a session that is recording, with \<^verbatim>\<open>meetingId\<close> set and no chunk
  yet, and let the recorder deliver one or more chunks, each with data. No call goes to
  the backend while they arrive. A stop issued while a token is stored then makes
  exactly one call to the backend: the upload of the concatenation of all the chunks,
  in the order of their arrival.
\<close>

theorem one_upload_of_all_chunks:
  assumes "isRecording s" and "meetingId s = Some m" and "m \<noteq> 0" and "audioChunks s = []"
    and "ds \<noteq> []" and "\<forall>d \<in> set ds. d \<noteq> []"
    and "stored_token e = Some token" and "token \<noteq> []"
  shows "filter is_backend_call (snd (deliver ds e' s)) = []
       \<and> filter is_backend_call (snd (stopRecording e (fst (deliver ds e' s))))
           = [PostUploadAudio m token (concat ds)]"
proof -
  from assms(6) have "filter (\<lambda>d. d \<noteq> []) ds = ds"
    by (simp add: filter_id_conv)
  with assms(4) have st: "fst (deliver ds e' s) = s\<lparr>audioChunks := ds\<rparr>"
    by (simp add: deliver_eq)
  have "filter is_backend_call (snd (stopRecording e (s\<lparr>audioChunks := ds\<rparr>)))
          = [PostUploadAudio m token (concat ds)]"
    using assms(1,2,3,5,7,8)
    by (simp add: stopRecording_def uploadAudioToBackend_def Let_def
        split: option.splits fetched.splits sum.splits)
  with st show ?thesis
    by (simp add: deliver_eq)
qed

theorem one_upload_of_all_chunks_witness:
  "isRecording (fst (startRecording 1 sample_env initial_state))
   \<and> filter is_backend_call
       (snd (stopRecording sample_env
              (fst (deliver [[1, 2, 3], [4]] sample_env (fst (startRecording 1 sample_env initial_state))))))
       = [PostUploadAudio 7 ''tok'' [1, 2, 3, 4]]"
  using one_upload_of_all_chunks
    [of "fst (startRecording 1 sample_env initial_state)" 7 "[[1, 2, 3], [4]]" sample_env "''tok''"
        sample_env]
  by (simp add: sample_env_def initial_state_def start_defs)

section \<open>Starting without a token\<close>

text \<open>
  C7. A start issued while the stored token is absent (or empty) leaves the session
  not recording, shows the notification "Recording Failed" with the message
  "Not authenticated", and makes no call to the backend, whatever the state was.
\<close>

theorem start_without_token:
  assumes "\<not> truthy_str (stored_token e)"
  shows "\<not> isRecording (fst (startRecording tabId e s))
       \<and> Notification ''Recording Failed'' ''Not authenticated'' \<in> set (snd (startRecording tabId e s))
       \<and> filter is_backend_call (snd (startRecording tabId e s)) = []"
proof (cases "stored_token e")
  case None
  then show ?thesis by (simp add: start_defs)
next
  case (Some token)
  with assms have "token = []" by simp
  with Some show ?thesis by (simp add: start_defs)
qed

theorem start_without_token_witness:
  "\<not> truthy_str (stored_token (sample_env\<lparr>stored_token := None\<rparr>))
   \<and> \<not> isRecording (fst (startRecording 1 (sample_env\<lparr>stored_token := None\<rparr>) initial_state))
   \<and> snd (startRecording 1 (sample_env\<lparr>stored_token := None\<rparr>) initial_state)
       = [ConsoleError ''Failed to start recording:'',
          Notification ''Recording Failed'' ''Not authenticated'']"
  using start_without_token [of "sample_env\<lparr>stored_token := None\<rparr>" 1 initial_state]
  by (simp add: start_defs)

section \<open>The health probe\<close>

text \<open>
  C8. \<^verbatim>\<open>checkBackendStatus\<close> returns no value; its answer is the text it writes to the
  status line, "Connected" standing for true and "Offline" for false. However the
  request ends (a 2xx response, another response, a network error, no answer at all),
  no exception leaves the function, it has settled after at most 5000 milliseconds, and
  the answer is true exactly when a response with \<^verbatim>\<open>ok\<close> set arrived before the limit: any
  error and the timeout give false.
\<close>

theorem checkBackendStatus_resolves:
  "(\<exists>shown. snd (checkBackendStatus arrival) = Inr shown
       \<and> reachable shown = (\<exists>t body. arrival = Some (t, Response True body) \<and> t < 5000))
   \<and> fst (checkBackendStatus arrival) \<le> 5000"
  by (cases arrival)
     (auto simp: checkBackendStatus_def checkBackendStatus_try_def fetch_with_timeout_def
        split: fetched.splits prod.splits if_splits)

section \<open>A start message from the popup\<close>

text \<open>
  C9. The claim: reading \<^verbatim>\<open>sender.tab.id\<close> is well defined for a \<^verbatim>\<open>START_RECORDING\<close>
  message whose sender has no tab. The popup sends exactly that message when its
  button is pressed while it is not recording, and the listener throws a \<^verbatim>\<open>TypeError\<close>
  on it in every state: \<^verbatim>\<open>startRecording\<close> is not called and no response is sent. A
  sender with a tab never makes the listener throw.
\<close>

lemma onMessage_with_tab: "tab sndr = Some t \<Longrightarrow> \<exists>r. onMessage m sndr e s = Inr r"
  by (cases m) (simp_all add: onMessage_def case_prod_unfold)

theorem popup_start_throws:
  "onMessage (fst (popup_toggleRecording False)) popup_sender e s
     = Inl (TypeError ''Cannot read properties of undefined (reading 'id')'')"
  by (simp add: popup_toggleRecording_def popup_sender_def onMessage_def)

section \<open>Stopping without a token or a meeting\<close>

text \<open>
  C10. When a recording session is stopped while the stored token is absent or
  \<^verbatim>\<open>meetingId\<close> is null, the upload step issues nothing, the stop as a whole makes no
  call to the backend and reports no failure (no error is logged, no failure
  notification is shown), and the session is reset to its initial value, so the chunks
  it held are gone.
\<close>

theorem stop_without_token_or_meeting:
  assumes "isRecording s" and "\<not> truthy_str (stored_token e) \<or> meetingId s = None"
  shows "uploadAudioToBackend e s = []
       \<and> filter is_backend_call (snd (stopRecording e s)) = []
       \<and> filter is_failure_report (snd (stopRecording e s)) = []
       \<and> fst (stopRecording e s) = initial_state"
proof -
  from assms(2) have guard: "\<not> truthy_str (stored_token e) \<or> \<not> truthy_num (meetingId s)"
    by auto
  then have "uploadAudioToBackend e s = []" and "uploadAudioToBackend e (s\<lparr>isRecording := False\<rparr>) = []"
    by (simp_all add: uploadAudioToBackend_def)
  with assms(1) show ?thesis
    by (simp add: stopRecording_def Let_def initial_state_def split: option.splits)
qed

theorem stop_without_token_or_meeting_witness:
  "isRecording sample_recording
   \<and> \<not> truthy_str (stored_token (sample_env\<lparr>stored_token := None\<rparr>))
   \<and> audioChunks sample_recording = [[1, 2, 3], [4]]
   \<and> stopRecording (sample_env\<lparr>stored_token := None\<rparr>) sample_recording
       = (initial_state,
          [RecorderStop 1, TabMessage 1 RECORDING_STOPPED, BadgeText [],
           Notification ''Recording Complete''
             ''Your meeting has been processed and is ready to view.''])"
  using stop_without_token_or_meeting [of sample_recording "sample_env\<lparr>stored_token := None\<rparr>"]
  by (simp add: sample_recording_eq sample_env_def stopRecording_def uploadAudioToBackend_def
      initial_state_def)

end
